theory Spec2Isabelle
  imports Main "HOL-Library.Product_Lexorder"
begin

section \<open>Text primitives of the host language\<close>

text \<open>
  The dashboard in \<^verbatim>\<open>final_app.py\<close> works on Python \<^verbatim>\<open>str\<close> values. A text is
  modelled as a \<^typ>\<open>string\<close>, one \<^typ>\<open>char\<close> per code point; the model covers the code
  points 0 to 255. The functions of this section are the \<^verbatim>\<open>str\<close> methods the source
  calls, each named after the method.
\<close>

definition whitespace :: "char list" where
  \<comment> \<open>the code points below 256 for which \<^verbatim>\<open>str.isspace\<close> holds\<close>
  "whitespace = [CHR 0x09, CHR 0x0A, CHR 0x0B, CHR 0x0C, CHR 0x0D, CHR 0x1C, CHR 0x1D,
                 CHR 0x1E, CHR 0x1F, CHR 0x20, CHR 0x85, CHR 0xA0]"

definition is_space :: "char \<Rightarrow> bool" where
  "is_space c = (c \<in> set whitespace)"

definition lstrip_chars :: "char list \<Rightarrow> string \<Rightarrow> string" where
  \<comment> \<open>\<^verbatim>\<open>s.lstrip(chars)\<close>: drops every leading character that is a member of \<^verbatim>\<open>chars\<close>\<close>
  "lstrip_chars chars s = dropWhile (\<lambda>c. c \<in> set chars) s"

definition rstrip_chars :: "char list \<Rightarrow> string \<Rightarrow> string" where
  \<comment> \<open>\<^verbatim>\<open>s.rstrip(chars)\<close>: drops every trailing character that is a member of \<^verbatim>\<open>chars\<close>\<close>
  "rstrip_chars chars s = rev (dropWhile (\<lambda>c. c \<in> set chars) (rev s))"

definition strip :: "string \<Rightarrow> string" where
  \<comment> \<open>\<^verbatim>\<open>s.strip()\<close>\<close>
  "strip s = rstrip_chars whitespace (lstrip_chars whitespace s)"

fun startswith :: "string \<Rightarrow> string \<Rightarrow> bool" where
  \<comment> \<open>\<^verbatim>\<open>s.startswith(p)\<close>, the text first and the prefix second\<close>
  "startswith s [] = True"
| "startswith [] (p # ps) = False"
| "startswith (c # cs) (p # ps) = (c = p \<and> startswith cs ps)"

definition split_once :: "char \<Rightarrow> string \<Rightarrow> string list" where
  \<comment> \<open>\<^verbatim>\<open>s.split(sep, 1)\<close> for a separator of one character\<close>
  "split_once sep s =
     (if sep \<in> set s then [takeWhile (\<lambda>c. c \<noteq> sep) s, tl (dropWhile (\<lambda>c. c \<noteq> sep) s)]
      else [s])"

definition split_first :: "char \<Rightarrow> string \<Rightarrow> string" where
  \<comment> \<open>\<^verbatim>\<open>s.split(sep)[0]\<close>: the text before the first separator, all of it if there is none\<close>
  "split_first sep s = takeWhile (\<lambda>c. c \<noteq> sep) s"

fun tokens :: "(char \<Rightarrow> bool) \<Rightarrow> string \<Rightarrow> string \<Rightarrow> string list" where
  \<comment> \<open>the maximal runs of characters that are not delimiters; the second argument is
     the token being read, reversed\<close>
  "tokens delim cur [] = (if cur = [] then [] else [rev cur])"
| "tokens delim cur (c # cs) =
     (if delim c then (if cur = [] then tokens delim [] cs else rev cur # tokens delim [] cs)
      else tokens delim (c # cur) cs)"

definition split_ws :: "string \<Rightarrow> string list" where
  \<comment> \<open>\<^verbatim>\<open>s.split()\<close>: the maximal runs of characters that are not whitespace\<close>
  "split_ws s = tokens is_space [] s"

definition linebreaks :: "char list" where
  \<comment> \<open>the line boundaries of \<^verbatim>\<open>str.splitlines\<close> below code point 256\<close>
  "linebreaks = [CHR 0x0A, CHR 0x0D, CHR 0x0B, CHR 0x0C, CHR 0x1C, CHR 0x1D, CHR 0x1E, CHR 0x85]"

fun lines_at :: "char list \<Rightarrow> string \<Rightarrow> string \<Rightarrow> string list" where
  \<comment> \<open>cuts a text at the given boundary characters, CR LF counting as one boundary; no
     empty last line; the second argument is the line being read, reversed\<close>
  "lines_at breaks cur [] = (if cur = [] then [] else [rev cur])"
| "lines_at breaks cur [c] =
     (if c \<in> set breaks then [rev cur] else [rev (c # cur)])"
| "lines_at breaks cur (c # d # cs) =
     (if c = CHR 0x0D \<and> d = CHR 0x0A then rev cur # lines_at breaks [] cs
      else if c \<in> set breaks then rev cur # lines_at breaks [] (d # cs)
      else lines_at breaks (c # cur) (d # cs))"

definition splitlines :: "string \<Rightarrow> string list" where
  \<comment> \<open>\<^verbatim>\<open>s.splitlines()\<close>\<close>
  "splitlines s = lines_at linebreaks [] s"

fun join :: "string \<Rightarrow> string list \<Rightarrow> string" where
  \<comment> \<open>\<^verbatim>\<open>sep.join(xs)\<close>\<close>
  "join sep [] = []"
| "join sep [x] = x"
| "join sep (x # y # ys) = x @ sep @ join sep (y # ys)"

definition digit_char :: "nat \<Rightarrow> char" where
  "digit_char d = ''0123456789'' ! d"

fun str_nat :: "nat \<Rightarrow> string" where
  \<comment> \<open>\<^verbatim>\<open>str(n)\<close> for a non-negative integer: its decimal digits\<close>
  "str_nat n = (if n < 10 then [digit_char n] else str_nat (n div 10) @ [digit_char (n mod 10)])"

declare str_nat.simps [simp del]

section \<open>Header Schema Extractor\<close>

text \<open>
  \<^verbatim>\<open>extract_column_names\<close> runs one loop over the lines of the file with two pieces of
  state, the list \<^verbatim>\<open>column_names\<close> and the dictionary \<^verbatim>\<open>seen_names\<close>. The loop body is
  \<open>extract_step\<close>; the dictionary is a map from base names to counters.
\<close>

type_synonym extract_state = "string list \<times> (string \<rightharpoonup> nat)"

definition extract_step :: "extract_state \<Rightarrow> string \<Rightarrow> extract_state" where
  "extract_step st line =
     (let column_names = fst st; seen_names = snd st in
      if startswith (strip line) ''Column'' \<and> \<not> startswith (strip line) ''From'' then
        (let parts = split_once CHR '':'' line in
         if length parts > 1 then
           (let base_name = split_first CHR '','' (strip (parts ! 1)) in
            case seen_names base_name of
              Some n \<Rightarrow>
                (column_names @ [base_name @ ''_'' @ str_nat (n + 1)],
                 seen_names(base_name \<mapsto> n + 1))
            | None \<Rightarrow>
                (column_names @ [base_name], seen_names(base_name \<mapsto> 0)))
         else st)
      else st)"

definition extract_column_names :: "string list \<Rightarrow> string list" where
  "extract_column_names file_content = fst (foldl extract_step ([], Map.empty) file_content)"

text \<open>
  The uniqueness the docstring of \<^verbatim>\<open>extract_column_names\<close> announces, and the reading of
  the extractor in the words of the specification: which lines declare a column, the name a
  declaration gives, and the suffix of the occurrence number \<open>i\<close> of a list of base names.
\<close>

definition unique_names :: "string list \<Rightarrow> bool" where
  "unique_names names = distinct names"

definition is_declaration :: "string \<Rightarrow> bool" where
  "is_declaration line =
     (startswith (strip line) ''Column'' \<and> \<not> startswith (strip line) ''From''
      \<and> CHR '':'' \<in> set line)"

definition declared_name :: "string \<Rightarrow> string" where
  "declared_name line =
     takeWhile (\<lambda>c. c \<noteq> CHR '','') (strip (tl (dropWhile (\<lambda>c. c \<noteq> CHR '':'') line)))"

definition suffixed :: "string list \<Rightarrow> nat \<Rightarrow> string" where
  "suffixed bases i =
     (let b = bases ! i; k = count_list (take i bases) b
      in if k = 0 then b else b @ ''_'' @ str_nat k)"

text \<open>Two auxiliary readings of the loop state, used in the proofs only.\<close>

fun number_from :: "string list \<Rightarrow> string list \<Rightarrow> string list" where
  "number_from prev [] = []"
| "number_from prev (b # bs) =
     (if count_list prev b = 0 then b else b @ ''_'' @ str_nat (count_list prev b))
       # number_from (prev @ [b]) bs"

definition counts :: "string list \<Rightarrow> (string \<rightharpoonup> nat)" where
  "counts prev = (\<lambda>b. if count_list prev b = 0 then None else Some (count_list prev b - 1))"

section \<open>Errors\<close>

text \<open>
  Every exception the code can meet is a value; the text it carries is what \<^verbatim>\<open>str(e)\<close>
  prints in the status message of \<^verbatim>\<open>process_selected_file\<close>.
\<close>

datatype error =
    RequestException string
  | ValueError string
  | KeyError string
  | IndexError string
  | NameError string

fun str_error :: "error \<Rightarrow> string" where
  "str_error (RequestException m) = m"
| "str_error (ValueError m) = m"
| "str_error (KeyError m) = [CHR 0x27] @ m @ [CHR 0x27]"
| "str_error (IndexError m) = m"
| "str_error (NameError m) = m"

definition truthy :: "string option \<Rightarrow> bool" where
  \<comment> \<open>the truth value of a callback argument: \<^verbatim>\<open>None\<close> and the empty text are false\<close>
  "truthy v = (case v of None \<Rightarrow> False | Some s \<Rightarrow> s \<noteq> [])"

section \<open>Directory Lister\<close>

text \<open>
  \<^verbatim>\<open>list_items\<close> fetches a listing and walks the targets of its anchors. The remote
  server and the HTML parser are the parameter \<open>listing\<close>: the error of the request, or
  the \<^verbatim>\<open>href\<close> values in document order. The message printed on an error is not
  modelled.
\<close>

definition qualifies :: "string \<Rightarrow> bool" where
  "qualifies href =
     (startswith href ''./'' \<and>
      \<not> (startswith href ''../'' \<or> startswith href ''../../''
         \<or> startswith href ''javascript'' \<or> startswith href ''operationfiles''))"

definition clean_href :: "string \<Rightarrow> string" where
  \<comment> \<open>\<^verbatim>\<open>href.lstrip("./").rstrip("/")\<close>\<close>
  "clean_href href = rstrip_chars ''/'' (lstrip_chars ''./'' href)"

definition list_items :: "(string \<Rightarrow> error + string list) \<Rightarrow> string \<Rightarrow> string list" where
  "list_items listing base_url =
     (case listing base_url of
        Inl e \<Rightarrow> []
      | Inr hrefs \<Rightarrow> map clean_href (filter qualifies hrefs))"

definition entry_name :: "string \<Rightarrow> string" where
  \<comment> \<open>the normalisation in the words of the specification: the prefix \<^verbatim>\<open>./\<close> removed
     once, one trailing separator removed if there is one\<close>
  "entry_name href =
     (let rest = (if startswith href ''./'' then drop 2 href else href)
      in if rest \<noteq> [] \<and> last rest = CHR ''/'' then butlast rest else rest)"

section \<open>Tables\<close>

text \<open>
  A \<^verbatim>\<open>DataFrame\<close> is its list of column labels and its rows in order, every row a list
  of cells. A cell read from the file keeps the token it was read from (the scalar the table
  library infers from the token is not modelled); \<open>NaN\<close> fills a field the line does not
  have; \<open>Stamp t\<close> is a timestamp on an integer time scale and \<open>NaT\<close> the null timestamp.
\<close>

datatype cell = Raw string | NaN | Stamp int | NaT

record dataframe =
  columns :: "string list"
  rows :: "cell list list"

fun column_index :: "string list \<Rightarrow> string \<Rightarrow> nat option" where
  \<comment> \<open>the position of a label, \<open>None\<close> where the lookup \<^verbatim>\<open>df[label]\<close> raises\<close>
  "column_index [] label = None"
| "column_index (name # names) label =
     (if name = label then Some 0 else map_option Suc (column_index names label))"

definition cell_at :: "nat \<Rightarrow> cell list \<Rightarrow> cell" where
  "cell_at i row = (if i < length row then row ! i else NaN)"

definition empty_df :: "dataframe \<Rightarrow> bool" where
  \<comment> \<open>\<^verbatim>\<open>df.empty\<close>: no column or no row\<close>
  "empty_df df = (columns df = [] \<or> rows df = [])"

subsection \<open>The calls into the table library\<close>

text \<open>
  \<^verbatim>\<open>pd.read_csv(io.StringIO(text), delim_whitespace=True, names=names, on_bad_lines="skip")\<close>
  is modelled by its documented behaviour on fields without quote characters: duplicate
  names are refused with a \<^verbatim>\<open>ValueError\<close>; the text is cut at LF, CR and CR LF; the fields
  of a line are its runs of characters other than space and tab; a line with no field is
  dropped; a line with more fields than names is a bad line and is skipped; a line with
  fewer fields is filled with \<open>NaN\<close>.
\<close>

definition csv_fields :: "string \<Rightarrow> string list" where
  "csv_fields line = tokens (\<lambda>c. c = CHR 0x20 \<or> c = CHR 0x09) [] line"

definition csv_row :: "nat \<Rightarrow> string list \<Rightarrow> cell list" where
  "csv_row width toks = map Raw toks @ replicate (width - length toks) NaN"

definition read_csv :: "string \<Rightarrow> string list \<Rightarrow> error + dataframe" where
  "read_csv text names =
     (if \<not> distinct names then Inl (ValueError ''Duplicate names are not allowed.'')
      else Inr \<lparr>columns = names,
                rows = map (csv_row (length names))
                         (filter (\<lambda>toks. toks \<noteq> [] \<and> length toks \<le> length names)
                            (map csv_fields (lines_at [CHR 0x0A, CHR 0x0D] [] text)))\<rparr>)"

text \<open>
  \<^verbatim>\<open>pd.to_datetime(column, format="%Y%m%dT%H%M%S.%fZ", errors="coerce")\<close>: the reading of
  one token in that format is the parameter \<open>strptime\<close>, \<open>None\<close> where the token does
  not parse; such a cell becomes \<open>NaT\<close>, and so does a missing one.
\<close>

definition to_datetime_cell :: "(string \<Rightarrow> int option) \<Rightarrow> cell \<Rightarrow> cell" where
  "to_datetime_cell strptime c =
     (case c of
        Raw s \<Rightarrow> (case strptime s of Some t \<Rightarrow> Stamp t | None \<Rightarrow> NaT)
      | Stamp t \<Rightarrow> Stamp t
      | NaN \<Rightarrow> NaT
      | NaT \<Rightarrow> NaT)"

definition set_datetime_column :: "(string \<Rightarrow> int option) \<Rightarrow> nat \<Rightarrow> dataframe \<Rightarrow> dataframe" where
  \<comment> \<open>\<^verbatim>\<open>df[c] = pd.to_datetime(df[c], ...)\<close> for the column at position \<open>i\<close>\<close>
  "set_datetime_column strptime i df =
     df\<lparr>rows := map (\<lambda>row. row[i := to_datetime_cell strptime (cell_at i row)]) (rows df)\<rparr>"

fun keep_first :: "('a \<Rightarrow> 'k) \<Rightarrow> 'k list \<Rightarrow> 'a list \<Rightarrow> 'a list" where
  \<comment> \<open>keeps a row iff its key has not been seen; the second argument is the keys seen\<close>
  "keep_first key seen [] = []"
| "keep_first key seen (r # rs) =
     (if key r \<in> set seen then keep_first key seen rs
      else r # keep_first key (key r # seen) rs)"

definition drop_duplicates :: "nat \<Rightarrow> dataframe \<Rightarrow> dataframe" where
  \<comment> \<open>\<^verbatim>\<open>df.drop_duplicates(subset=[c], inplace=True)\<close>: the default keeps the first row of
     each value, null timestamps counting as one value\<close>
  "drop_duplicates i df = df\<lparr>rows := keep_first (cell_at i) [] (rows df)\<rparr>"

definition sort_rank :: "cell \<Rightarrow> nat \<times> int" where
  \<comment> \<open>ascending order of the timestamps, every null after them (\<^verbatim>\<open>na_position="last"\<close>)\<close>
  "sort_rank c = (case c of Stamp t \<Rightarrow> (0, t) | _ \<Rightarrow> (1, 0))"

definition sort_values :: "nat \<Rightarrow> dataframe \<Rightarrow> dataframe" where
  \<comment> \<open>\<^verbatim>\<open>df.sort_values(by=c, inplace=True)\<close>; after \<^verbatim>\<open>drop_duplicates\<close> no two rows
     have the same key, so the result does not depend on the sorting algorithm\<close>
  "sort_values i df = df\<lparr>rows := sort_key (\<lambda>row. sort_rank (cell_at i row)) (rows df)\<rparr>"

section \<open>Session state\<close>

text \<open>
  The module has two globals, \<^verbatim>\<open>uploaded_df\<close> and \<^verbatim>\<open>timestamp_column\<close>. A table is an
  object: the state holds the objects allocated so far, and \<^verbatim>\<open>uploaded_df\<close> is a reference
  into them, \<open>None\<close> while the name is unbound (it is bound only under
  \<^verbatim>\<open>__main__\<close>).
\<close>

record session =
  heap :: "dataframe list"
  uploaded_df :: "nat option"
  timestamp_column :: "string option"

definition alloc :: "dataframe \<Rightarrow> session \<Rightarrow> nat \<times> session" where
  "alloc df st = (length (heap st), st\<lparr>heap := heap st @ [df]\<rparr>)"

definition deref :: "session \<Rightarrow> nat \<Rightarrow> dataframe option" where
  "deref st a = (if a < length (heap st) then Some (heap st ! a) else None)"

definition session_table :: "session \<Rightarrow> dataframe option" where
  \<comment> \<open>the table the global \<^verbatim>\<open>uploaded_df\<close> refers to\<close>
  "session_table st = (case uploaded_df st of None \<Rightarrow> None | Some a \<Rightarrow> deref st a)"

section \<open>Resolving a selected file\<close>

text \<open>
  The pieces of \<^verbatim>\<open>process_selected_file\<close> in the order of the source: the
  \<^verbatim>\<open>for ... else\<close> loop that finds the data section, the padding of the column names to the
  field count of the first data row, and the choice of the timestamp column.
\<close>

definition locate_data_section :: "string list \<Rightarrow> string option" where
  \<comment> \<open>\<^verbatim>\<open>"\n".join(data[i:])\<close> for the first \<open>i\<close> whose line, stripped, starts with
     \<^verbatim>\<open>202\<close>; \<open>None\<close> is the \<^verbatim>\<open>else\<close> branch of the loop\<close>
  "locate_data_section data =
     (case dropWhile (\<lambda>line. \<not> startswith (strip line) ''202'') data of
        [] \<Rightarrow> None
      | line # rest \<Rightarrow> Some (join [CHR 0x0A] (line # rest)))"

definition reconcile :: "string list \<Rightarrow> string \<Rightarrow> string list" where
  "reconcile column_names sample_row =
     (let actual_field_count = length (split_ws sample_row) in
      if length column_names < actual_field_count then
        column_names @
          map (\<lambda>i. ''Unnamed_'' @ str_nat i) [length column_names..<actual_field_count]
      else column_names)"

definition possible_timestamp_columns :: "string list" where
  "possible_timestamp_columns = [''Timestamp'', ''UT date and time for measurement center'']"

definition find_timestamp_column :: "string list \<Rightarrow> string option" where
  \<comment> \<open>\<^verbatim>\<open>next((col for col in column_names if col in possible_timestamp_columns), None)\<close>\<close>
  "find_timestamp_column column_names =
     find (\<lambda>col. col \<in> set possible_timestamp_columns) column_names"

definition first_allowed_label :: "string list \<Rightarrow> string option" where
  \<comment> \<open>the choice in the words of the specification: the candidates tried in the order of
     the allow-list\<close>
  "first_allowed_label column_names =
     find (\<lambda>label. label \<in> set column_names) possible_timestamp_columns"

type_synonym options = "(string \<times> string) list"

definition column_options :: "string list \<Rightarrow> string \<Rightarrow> options" where
  \<comment> \<open>the dropdown entries, a label and a value for every column but the timestamp\<close>
  "column_options column_names ts = map (\<lambda>col. (col, col)) (filter (\<lambda>col. col \<noteq> ts) column_names)"

definition error_loading :: "error \<Rightarrow> options \<times> options \<times> string" where
  \<comment> \<open>the \<^verbatim>\<open>except\<close> branch\<close>
  "error_loading e = ([], [], ''Error loading file: '' @ str_error e)"

text \<open>
  The callback. The request, its status check and the decoding of the body are the parameter
  \<open>fetch\<close>: the error raised, or the decoded text. Every \<^verbatim>\<open>return\<close> and every exception
  caught by the \<^verbatim>\<open>except\<close> branch is a branch here, and each gives the outputs together with
  the globals as they are at that point. The table is local until it is published in
  \<^verbatim>\<open>uploaded_df\<close>; its updates in place are updates of the local value.
\<close>

definition process_selected_file ::
  "(string \<Rightarrow> error + string) \<Rightarrow> (string \<Rightarrow> int option) \<Rightarrow> string option \<Rightarrow> session
     \<Rightarrow> (options \<times> options \<times> string) \<times> session" where
  "process_selected_file fetch strptime file_url st =
     (case file_url of
        None \<Rightarrow> (([], [], ''No file selected.''), st)
      | Some url \<Rightarrow>
          if url = [] then (([], [], ''No file selected.''), st)
          else
            (case fetch url of
               Inl e \<Rightarrow> (error_loading e, st)
             | Inr text \<Rightarrow>
                 (let data = splitlines text;
                      declared = extract_column_names data
                  in case locate_data_section data of
                       None \<Rightarrow> (([], [], ''No valid data found in the file.''), st)
                     | Some data_section \<Rightarrow>
                         (case splitlines data_section of
                            [] \<Rightarrow> (error_loading (IndexError ''list index out of range''), st)
                          | sample_row # _ \<Rightarrow>
                              (let column_names = reconcile declared sample_row
                               in case read_csv data_section column_names of
                                    Inl e \<Rightarrow> (error_loading e, st)
                                  | Inr df \<Rightarrow>
                                      (let found = find_timestamp_column column_names;
                                           st1 = st\<lparr>timestamp_column := found\<rparr>
                                       in case found of
                                            None \<Rightarrow>
                                              (([], [], ''No valid timestamp column found in the file.''), st1)
                                          | Some ts \<Rightarrow>
                                              if ts = [] then
                                                (([], [], ''No valid timestamp column found in the file.''), st1)
                                              else
                                                (case column_index (columns df) ts of
                                                   None \<Rightarrow> (error_loading (KeyError ts), st1)
                                                 | Some i \<Rightarrow>
                                                     (let df1 = set_datetime_column strptime i df;
                                                          df2 = drop_duplicates i df1;
                                                          df3 = sort_values i df2;
                                                          (a, st2) = alloc df3 st1;
                                                          st3 = st2\<lparr>uploaded_df := Some a\<rparr>;
                                                          numeric_columns = column_options column_names ts
                                                      in ((numeric_columns, numeric_columns,
                                                           ''Loaded file: '' @ url), st3)))))))))"

section \<open>Charts\<close>

record figure =
  points :: "(cell \<times> cell) list"
  title :: string

definition no_data_figure :: figure where
  \<comment> \<open>\<^verbatim>\<open>px.line(title="No Data Available")\<close>\<close>
  "no_data_figure = \<lparr>points = [], title = ''No Data Available''\<rparr>"

definition px_line :: "dataframe \<Rightarrow> string \<Rightarrow> string \<Rightarrow> string \<Rightarrow> error + figure" where
  \<comment> \<open>\<^verbatim>\<open>px.line(df, x=x, y=y, title=t)\<close>: the two columns row by row; a name that is not a
     column is refused with a \<^verbatim>\<open>ValueError\<close>\<close>
  "px_line df x y t =
     (case column_index (columns df) x of
        None \<Rightarrow> Inl (ValueError ''Value of x is not the name of a column in data_frame'')
      | Some i \<Rightarrow>
          (case column_index (columns df) y of
             None \<Rightarrow> Inl (ValueError ''Value of y is not the name of a column in data_frame'')
           | Some j \<Rightarrow>
               Inr \<lparr>points = map (\<lambda>row. (cell_at i row, cell_at j row)) (rows df), title = t\<rparr>))"

definition chart :: "dataframe \<Rightarrow> string \<Rightarrow> string option \<Rightarrow> string \<Rightarrow> error + figure" where
  \<comment> \<open>one of the two \<^verbatim>\<open>if column: ... else: ...\<close> blocks; \<open>label\<close> is \<^verbatim>\<open>Chart 1\<close> or
     \<^verbatim>\<open>Chart 2\<close>\<close>
  "chart df ts column label =
     (if truthy column then
        (case column of
           Some y \<Rightarrow> px_line df ts y (label @ '': '' @ y @ '' Over Time'')
         | None \<Rightarrow> Inr no_data_figure)
      else Inr no_data_figure)"

definition in_range :: "int option \<Rightarrow> int option \<Rightarrow> cell \<Rightarrow> bool" where
  \<comment> \<open>\<^verbatim>\<open>(cell >= lo) & (cell <= hi)\<close>: a comparison with a null on either side is false\<close>
  "in_range lo hi c =
     (case c of
        Stamp t \<Rightarrow>
          (case lo of
             Some l \<Rightarrow> (case hi of Some h \<Rightarrow> l \<le> t \<and> t \<le> h | None \<Rightarrow> False)
           | None \<Rightarrow> False)
      | _ \<Rightarrow> False)"

definition date_filter ::
  "(string \<Rightarrow> error + int option) \<Rightarrow> string \<Rightarrow> string option \<Rightarrow> string option \<Rightarrow> dataframe
     \<Rightarrow> error + dataframe option" where
  \<comment> \<open>the block under \<^verbatim>\<open>if start_date and end_date\<close>: the new table the mask selects, or
     \<open>None\<close> when the block is not entered\<close>
  "date_filter to_datetime ts start_date end_date df =
     (if truthy start_date \<and> truthy end_date then
        (case (start_date, end_date) of
           (Some s, Some e) \<Rightarrow>
             (case column_index (columns df) ts of
                None \<Rightarrow> Inl (KeyError ts)
              | Some i \<Rightarrow>
                  (case to_datetime s of
                     Inl err \<Rightarrow> Inl err
                   | Inr lo \<Rightarrow>
                       (case to_datetime e of
                          Inl err \<Rightarrow> Inl err
                        | Inr hi \<Rightarrow>
                            Inr (Some (df\<lparr>rows :=
                              filter (\<lambda>row. in_range lo hi (cell_at i row)) (rows df)\<rparr>)))))
         | _ \<Rightarrow> Inr None)
      else Inr None)"

definition draw_charts ::
  "dataframe \<Rightarrow> string \<Rightarrow> string option \<Rightarrow> string option \<Rightarrow> error + figure \<times> figure" where
  \<comment> \<open>the two blocks in order: an exception in the first leaves before the second\<close>
  "draw_charts df ts column1 column2 =
     (case chart df ts column1 ''Chart 1'' of
        Inl err \<Rightarrow> Inl err
      | Inr fig1 \<Rightarrow>
          (case chart df ts column2 ''Chart 2'' of
             Inl err \<Rightarrow> Inl err
           | Inr fig2 \<Rightarrow> Inr (fig1, fig2)))"

text \<open>
  The callback. \<^verbatim>\<open>pd.to_datetime\<close> of a date of the picker is the parameter
  \<open>to_datetime\<close>: the error it raises, or the timestamp (\<open>None\<close> for a null one). An
  exception leaves the callback, so the first component is a sum; the second is the state
  afterwards. \<^verbatim>\<open>uploaded_df.copy()\<close> and the selection by the mask each allocate a new table.
\<close>

definition update_charts ::
  "(string \<Rightarrow> error + int option) \<Rightarrow> string option \<Rightarrow> string option \<Rightarrow> string option
     \<Rightarrow> string option \<Rightarrow> session \<Rightarrow> (error + figure \<times> figure) \<times> session" where
  "update_charts to_datetime column1 column2 start_date end_date st =
     (case session_table st of
        None \<Rightarrow> (Inl (NameError ''uploaded_df''), st)
      | Some stored \<Rightarrow>
          if empty_df stored \<or> \<not> truthy (timestamp_column st) then
            (Inr (no_data_figure, no_data_figure), st)
          else
            (case timestamp_column st of
               None \<Rightarrow> (Inr (no_data_figure, no_data_figure), st)
             | Some ts \<Rightarrow>
                 (let (a, st1) = alloc stored st
                  in case date_filter to_datetime ts start_date end_date stored of
                       Inl err \<Rightarrow> (Inl err, st1)
                     | Inr None \<Rightarrow> (draw_charts stored ts column1 column2, st1)
                     | Inr (Some chosen) \<Rightarrow>
                         (let (b, st2) = alloc chosen st1
                          in (draw_charts chosen ts column1 column2, st2)))))"

definition within_bounds :: "int option \<Rightarrow> int option \<Rightarrow> int \<Rightarrow> bool" where
  \<comment> \<open>the range in the words of the specification: inclusive, and unbounded on the side of
     an absent bound\<close>
  "within_bounds lo hi t =
     ((case lo of None \<Rightarrow> True | Some l \<Rightarrow> l \<le> t) \<and> (case hi of None \<Rightarrow> True | Some h \<Rightarrow> t \<le> h))"

section \<open>One reading of the two date formats\<close>

text \<open>
  The callbacks take the parsers of the table library as parameters, and the theorems hold
  for every parser. Where a concrete run is evaluated, these two are used: the stamp of a data
  row in its fixed-width form \<^verbatim>\<open>YYYYMMDDThhmmss.ffffffZ\<close> and a date of the picker in the
  form \<^verbatim>\<open>YYYY-MM-DD\<close>, both read as the number their digits spell, to the microsecond, which
  orders valid dates as time does. Any other text is refused.
\<close>

definition int_of_digits :: "string \<Rightarrow> int option" where
  "int_of_digits s =
     (if s \<noteq> [] \<and> list_all (\<lambda>c. c \<in> set ''0123456789'') s then
        Some (foldl (\<lambda>n c. 10 * n + int (length (takeWhile (\<lambda>d. d \<noteq> c) ''0123456789''))) 0 s)
      else None)"

definition fixed_width_strptime :: "string \<Rightarrow> int option" where
  "fixed_width_strptime s =
     (if length s = 23 \<and> s ! 8 = CHR ''T'' \<and> s ! 15 = CHR ''.'' \<and> s ! 22 = CHR ''Z'' then
        int_of_digits (take 8 s @ take 6 (drop 9 s) @ take 6 (drop 16 s))
      else None)"

definition iso_date :: "string \<Rightarrow> error + int option" where
  "iso_date s =
     (if length s = 10 \<and> s ! 4 = CHR ''-'' \<and> s ! 7 = CHR ''-'' then
        (case int_of_digits (take 4 s @ take 2 (drop 5 s) @ take 2 (drop 8 s)) of
           Some n \<Rightarrow> Inr (Some (n * 1000000000000))
         | None \<Rightarrow> Inl (ValueError ''Unknown datetime string format''))
      else Inl (ValueError ''Unknown datetime string format''))"

section \<open>The deduplication policy in the words of the specification\<close>

definition first_occurrences :: "('a \<Rightarrow> 'k) \<Rightarrow> 'a list \<Rightarrow> 'a list" where
  \<comment> \<open>the rows, in file order, that no earlier row shares its key with\<close>
  "first_occurrences key rs =
     map (nth rs) (filter (\<lambda>k. \<forall>j<k. key (rs ! j) \<noteq> key (rs ! k)) [0..<length rs])"

section \<open>Fixed inputs\<close>

text \<open>
  A remote that answers every request with one text, a listing that answers with one list of
  anchors, and a session in which a table of two rows has been loaded.
\<close>

definition serve :: "string \<Rightarrow> string \<Rightarrow> error + string" where
  "serve text url = Inr text"

definition serve_listing :: "string list \<Rightarrow> string \<Rightarrow> error + string list" where
  "serve_listing hrefs url = Inr hrefs"

definition loaded_session :: session where
  "loaded_session =
     \<lparr>heap = [\<lparr>columns = [''Timestamp'', ''Pressure''],
               rows = [[Stamp 20230101000000000000, Raw ''1013.2''],
                       [Stamp 20230103000000000000, Raw ''1012.5'']]\<rparr>],
      uploaded_df = Some 0,
      timestamp_column = Some ''Timestamp''\<rparr>"

definition scenario_file :: string where
  \<comment> \<open>two declared columns and three data rows, the first stamp twice\<close>
  "scenario_file =
     join [CHR 0x0A]
       [''Column 1: Timestamp, UTC'',
        ''Column 2: Pressure, mbar'',
        ''20230101T000000.000000Z 1013.2'',
        ''20230101T000000.000000Z 1014.0'',
        ''20230102T000000.000000Z 1012.5'']"

section \<open>Properties of the Header Schema Extractor\<close>

lemma counts_snoc: "(counts prev)(b \<mapsto> count_list prev b) = counts (prev @ [b])"
  by (rule ext) (simp add: counts_def)

lemma counts_empty: "counts [] = Map.empty"
  by (rule ext) (simp add: counts_def)

lemma extract_step_skip: "\<not> is_declaration line \<Longrightarrow> extract_step st line = st"
  by (auto simp: extract_step_def is_declaration_def split_once_def Let_def)

lemma extract_step_take:
  "is_declaration line \<Longrightarrow>
   extract_step (acc, counts prev) line =
     (acc @ number_from prev [declared_name line], counts (prev @ [declared_name line]))"
  by (auto simp: extract_step_def is_declaration_def declared_name_def split_once_def
      split_first_def Let_def counts_snoc[symmetric] counts_def split: option.splits if_splits)

lemma foldl_extract_step:
  "foldl extract_step (acc, counts prev) lines =
     (acc @ number_from prev (map declared_name (filter is_declaration lines)),
      counts (prev @ map declared_name (filter is_declaration lines)))"
proof (induction lines arbitrary: acc prev)
  case Nil
  show ?case by simp
next
  case (Cons line lines)
  show ?case
  proof (cases "is_declaration line")
    case True
    then show ?thesis by (simp add: extract_step_take Cons.IH)
  next
    case False
    then show ?thesis by (simp add: extract_step_skip Cons.IH)
  qed
qed

lemma number_from_nth:
  "number_from prev bs = map (\<lambda>i. suffixed (prev @ bs) (length prev + i)) [0..<length bs]"
proof (induction bs arbitrary: prev)
  case Nil
  show ?case by simp
next
  case (Cons b bs)
  have shift: "map (\<lambda>i. suffixed (prev @ b # bs) (length prev + i)) [0..<length (b # bs)]
      = suffixed (prev @ b # bs) (length prev)
        # map (\<lambda>i. suffixed ((prev @ [b]) @ bs) (length (prev @ [b]) + i)) [0..<length bs]"
    by (simp add: upt_conv_Cons map_Suc_upt[symmetric] del: upt_Suc)
  have first: "suffixed (prev @ b # bs) (length prev)
      = (if count_list prev b = 0 then b else b @ ''_'' @ str_nat (count_list prev b))"
    by (simp add: suffixed_def)
  show ?case unfolding shift first by (simp add: Cons.IH)
qed

lemma extract_column_names_eq:
  "extract_column_names lines =
     map (suffixed (map declared_name (filter is_declaration lines)))
       [0..<length (filter is_declaration lines)]"
  using foldl_extract_step[of "[]" "[]" lines] number_from_nth[of "[]"]
  by (simp add: extract_column_names_def counts_empty)

lemma scenario_names:
  "extract_column_names
     [''Column 1: Timestamp, UTC'', ''Column 2: Pressure, mbar'', ''Column 1: Timestamp, UTC'']
   = [''Timestamp'', ''Pressure'', ''Timestamp_1'']"
  by code_simp

text \<open>
  Claim C8. The names \<^verbatim>\<open>extract_column_names\<close> returns are those of the declaration lines, in
  order, and no other line contributes one: a declaration line is a line whose stripped text
  starts with \<^verbatim>\<open>Column\<close>, does not start with \<^verbatim>\<open>From\<close>, and which has a colon; its name
  is the text after the first colon, stripped and then cut at the first comma; the name at
  position \<open>i\<close> carries the suffix \<^verbatim>\<open>_k\<close> when \<open>k > 0\<close> earlier declarations have the same
  base name. The three header lines of the scenario give \<^verbatim>\<open>Timestamp\<close>, \<^verbatim>\<open>Pressure\<close>,
  \<^verbatim>\<open>Timestamp_1\<close>.
\<close>

theorem extract_column_names_declarations:
  "extract_column_names lines =
     map (suffixed (map declared_name (filter is_declaration lines)))
       [0..<length (filter is_declaration lines)]
   \<and> extract_column_names
       [''Column 1: Timestamp, UTC'', ''Column 2: Pressure, mbar'', ''Column 1: Timestamp, UTC'']
     = [''Timestamp'', ''Pressure'', ''Timestamp_1'']"
  using extract_column_names_eq scenario_names by simp

theorem extract_column_names_declarations_witness:
  "extract_column_names [''# header'', '' Column 7: Ozone , DU'', ''Column 8 without colon'', ''Column 9:Ozone'']
     = [''Ozone '', ''Ozone'']
   \<and> map (suffixed (map declared_name (filter is_declaration
         [''# header'', '' Column 7: Ozone , DU'', ''Column 8 without colon'', ''Column 9:Ozone''])))
       [0..<length (filter is_declaration
         [''# header'', '' Column 7: Ozone , DU'', ''Column 8 without colon'', ''Column 9:Ozone''])]
     = [''Ozone '', ''Ozone'']"
proof -
  note eq = extract_column_names_declarations
    [of "[''# header'', '' Column 7: Ozone , DU'', ''Column 8 without colon'', ''Column 9:Ozone'']",
     THEN conjunct1]
  have run: "extract_column_names
      [''# header'', '' Column 7: Ozone , DU'', ''Column 8 without colon'', ''Column 9:Ozone'']
     = [''Ozone '', ''Ozone'']"
    by code_simp
  show ?thesis unfolding eq[symmetric] using run by simp
qed

text \<open>
  Claim C1. The names returned are not always different: a base name that already has the
  shape of a suffixed name meets the suffixed repeat of another one, and a declared name of
  the shape \<^verbatim>\<open>Unnamed_i\<close> meets the synthetic name of the padding.
\<close>

theorem extract_column_names_repeats:
  "extract_column_names [''Column 1: A'', ''Column 2: A'', ''Column 3: A_1''] = [''A'', ''A_1'', ''A_1'']
   \<and> \<not> unique_names (extract_column_names [''Column 1: A'', ''Column 2: A'', ''Column 3: A_1''])
   \<and> reconcile (extract_column_names [''Column 1: Unnamed_1'']) ''20230101T000000.000000Z 1013.2''
       = [''Unnamed_1'', ''Unnamed_1'']"
proof -
  have a: "extract_column_names [''Column 1: A'', ''Column 2: A'', ''Column 3: A_1''] = [''A'', ''A_1'', ''A_1'']"
    by code_simp
  have b: "reconcile (extract_column_names [''Column 1: Unnamed_1'']) ''20230101T000000.000000Z 1013.2''
       = [''Unnamed_1'', ''Unnamed_1'']"
    by code_simp
  show ?thesis unfolding a using b by (simp add: unique_names_def)
qed

text \<open>
  Claim C9. \<^verbatim>\<open>lstrip("./")\<close> and \<^verbatim>\<open>rstrip("/")\<close> remove every leading dot and slash and
  every trailing slash, not one prefix and one separator: the entry \<^verbatim>\<open>./.hidden/\<close> is listed
  as \<^verbatim>\<open>hidden\<close> and \<^verbatim>\<open>./L2//\<close> as \<^verbatim>\<open>L2\<close>.
\<close>

theorem list_items_strips_character_sets:
  "list_items (serve_listing [''./.hidden/'', ''./L2//'']) ''https://data.example/'' = [''hidden'', ''L2'']
   \<and> map entry_name [''./.hidden/'', ''./L2//''] = [''.hidden'', ''L2/'']"
  by code_simp

text \<open>
  Claim C5. When fewer names are declared than the first data row has fields, the reconciled
  list is the declared one followed by \<^verbatim>\<open>Unnamed_i\<close> for \<open>i\<close> from the declared count up to
  the field count, and its length is the field count; otherwise the declared list is returned
  as it is.
\<close>

theorem reconcile_pads_to_field_count:
  "(length column_names < length (split_ws sample_row) \<longrightarrow>
      reconcile column_names sample_row =
        column_names @ map (\<lambda>i. ''Unnamed_'' @ str_nat i)
                         [length column_names..<length (split_ws sample_row)]
      \<and> length (reconcile column_names sample_row) = length (split_ws sample_row))
   \<and> (length (split_ws sample_row) \<le> length column_names \<longrightarrow>
        reconcile column_names sample_row = column_names)"
  by (simp add: reconcile_def Let_def)

theorem reconcile_pads_to_field_count_witness:
  "length [''Timestamp''] < length (split_ws ''20230101T000000.000000Z 1013.2  7'')
   \<and> reconcile [''Timestamp''] ''20230101T000000.000000Z 1013.2  7''
       = [''Timestamp'', ''Unnamed_1'', ''Unnamed_2'']
   \<and> length (split_ws ''20230101T000000.000000Z'') \<le> length [''Timestamp'', ''Pressure'']
   \<and> reconcile [''Timestamp'', ''Pressure''] ''20230101T000000.000000Z'' = [''Timestamp'', ''Pressure'']"
proof -
  have n3: "length (split_ws ''20230101T000000.000000Z 1013.2  7'') = 3" by code_simp
  have n1: "length (split_ws ''20230101T000000.000000Z'') = 1" by code_simp
  have u: "map (\<lambda>i. ''Unnamed_'' @ str_nat i) [1..<3] = [''Unnamed_1'', ''Unnamed_2'']"
    by code_simp
  from reconcile_pads_to_field_count[of "[''Timestamp'']" "''20230101T000000.000000Z 1013.2  7''"]
       reconcile_pads_to_field_count[of "[''Timestamp'', ''Pressure'']" "''20230101T000000.000000Z''"]
  show ?thesis unfolding n3 n1 using u by simp
qed


section \<open>Properties of the file resolution\<close>

lemma read_csv_columns:
  "read_csv text names = Inr df \<Longrightarrow> columns df = names \<and> distinct names"
  by (auto simp: read_csv_def split: if_splits)

lemma column_index_member:
  "c \<in> set names \<Longrightarrow> \<exists>i. column_index names c = Some i \<and> i < length names \<and> names ! i = c"
  by (induction names) auto

lemma locate_data_section_None:
  "(locate_data_section data = None) = (\<forall>line\<in>set data. \<not> startswith (strip line) ''202'')"
proof -
  have "(locate_data_section data = None)
      = (dropWhile (\<lambda>line. \<not> startswith (strip line) ''202'') data = [])"
    by (cases "dropWhile (\<lambda>line. \<not> startswith (strip line) ''202'') data")
       (simp_all add: locate_data_section_def del: dropWhile_eq_Nil_conv)
  then show ?thesis by (simp add: dropWhile_eq_Nil_conv)
qed

text \<open>
  Claim C7. When the file is fetched and none of its lines, stripped, starts with \<^verbatim>\<open>202\<close>,
  the callback returns the status \<^verbatim>\<open>No valid data found in the file.\<close> with empty option
  lists, as a value and not as an exception, and the session state is the one it started
  from.
\<close>

theorem no_data_section_leaves_session:
  assumes "fetch url = Inr text" and "url \<noteq> []"
    and "\<forall>line\<in>set (splitlines text). \<not> startswith (strip line) ''202''"
  shows "process_selected_file fetch strptime (Some url) st =
           (([], [], ''No valid data found in the file.''), st)"
proof -
  from assms(3) have "locate_data_section (splitlines text) = None"
    by (simp add: locate_data_section_None)
  with assms(1,2) show ?thesis
    by (simp add: process_selected_file_def Let_def)
qed

theorem no_data_section_leaves_session_witness:
  "serve ''# Pandonia L2 file\<newline>Column 1: Timestamp\<newline>   1999 12'' ''https://data.example/f.txt''
      = Inr ''# Pandonia L2 file\<newline>Column 1: Timestamp\<newline>   1999 12''
   \<and> ''https://data.example/f.txt'' \<noteq> []
   \<and> splitlines ''# Pandonia L2 file\<newline>Column 1: Timestamp\<newline>   1999 12''
       = [''# Pandonia L2 file'', ''Column 1: Timestamp'', ''   1999 12'']
   \<and> \<not> startswith (strip ''# Pandonia L2 file'') ''202''
   \<and> \<not> startswith (strip ''Column 1: Timestamp'') ''202''
   \<and> \<not> startswith (strip ''   1999 12'') ''202''
   \<and> process_selected_file (serve ''# Pandonia L2 file\<newline>Column 1: Timestamp\<newline>   1999 12'')
        fixed_width_strptime (Some ''https://data.example/f.txt'') loaded_session
       = (([], [], ''No valid data found in the file.''), loaded_session)"
proof -
  have lines: "splitlines ''# Pandonia L2 file\<newline>Column 1: Timestamp\<newline>   1999 12''
      = [''# Pandonia L2 file'', ''Column 1: Timestamp'', ''   1999 12'']"
    by code_simp
  have l1: "\<not> startswith (strip ''# Pandonia L2 file'') ''202''" by code_simp
  have l2: "\<not> startswith (strip ''Column 1: Timestamp'') ''202''" by code_simp
  have l3: "\<not> startswith (strip ''   1999 12'') ''202''" by code_simp
  have h3: "\<forall>line\<in>set (splitlines ''# Pandonia L2 file\<newline>Column 1: Timestamp\<newline>   1999 12'').
         \<not> startswith (strip line) ''202''"
    unfolding lines using l1 l2 l3 by simp
  have h1: "serve ''# Pandonia L2 file\<newline>Column 1: Timestamp\<newline>   1999 12'' ''https://data.example/f.txt''
      = Inr ''# Pandonia L2 file\<newline>Column 1: Timestamp\<newline>   1999 12''"
    by (simp add: serve_def)
  have h2: "''https://data.example/f.txt'' \<noteq> []" by simp
  from no_data_section_leaves_session
    [where fetch = "serve ''# Pandonia L2 file\<newline>Column 1: Timestamp\<newline>   1999 12''"
       and url = "''https://data.example/f.txt''" and strptime = fixed_width_strptime
       and st = loaded_session, OF h1 h2 h3] h1 h2 lines l1 l2 l3
  show ?thesis by blast
qed

text \<open>
  Claim C2. A resolution that fails for want of a timestamp column does change the session:
  \<^verbatim>\<open>timestamp_column\<close> is assigned before it is tested, so the name stored by the previous
  file is replaced by \<^verbatim>\<open>None\<close> while \<^verbatim>\<open>uploaded_df\<close> still refers to the previous table.
\<close>

theorem failed_resolution_clears_timestamp_column:
  "process_selected_file (serve ''Column 1: Pressure\<newline>20230101T000000.000000Z'')
      fixed_width_strptime (Some ''https://data.example/f.txt'') loaded_session
     = (([], [], ''No valid timestamp column found in the file.''),
        loaded_session\<lparr>timestamp_column := None\<rparr>)
   \<and> timestamp_column loaded_session = Some ''Timestamp''"
  by code_simp

lemma find_timestamp_column_label:
  "find_timestamp_column names = Some ts \<Longrightarrow> ts \<in> set names \<and> ts \<in> set possible_timestamp_columns \<and> ts \<noteq> []"
  by (induction names)
     (auto simp: find_timestamp_column_def possible_timestamp_columns_def split: if_splits)

lemma process_unresolved:
  assumes "fetch url = Inr text" and "url \<noteq> []"
    and "locate_data_section (splitlines text) = Some data_section"
    and "splitlines data_section = sample_row # rest"
    and "read_csv data_section (reconcile (extract_column_names (splitlines text)) sample_row) = Inr df"
    and "find_timestamp_column (reconcile (extract_column_names (splitlines text)) sample_row) = None"
  shows "process_selected_file fetch strptime (Some url) st =
           (([], [], ''No valid timestamp column found in the file.''), st\<lparr>timestamp_column := None\<rparr>)"
  using assms by (simp add: process_selected_file_def Let_def)

lemma process_resolved:
  assumes "fetch url = Inr text" and "url \<noteq> []"
    and "locate_data_section (splitlines text) = Some data_section"
    and "splitlines data_section = sample_row # rest"
    and "read_csv data_section (reconcile (extract_column_names (splitlines text)) sample_row) = Inr df"
    and "find_timestamp_column (reconcile (extract_column_names (splitlines text)) sample_row) = Some ts"
  shows "\<exists>i. column_index (columns df) ts = Some i \<and> i < length (columns df) \<and>
           process_selected_file fetch strptime (Some url) st =
             ((column_options (columns df) ts, column_options (columns df) ts, ''Loaded file: '' @ url),
              st\<lparr>timestamp_column := Some ts,
                 heap := heap st @ [sort_values i (drop_duplicates i (set_datetime_column strptime i df))],
                 uploaded_df := Some (length (heap st))\<rparr>)"
proof -
  let ?names = "reconcile (extract_column_names (splitlines text)) sample_row"
  from assms(5) have cols: "columns df = ?names" by (simp add: read_csv_columns)
  from assms(6) have ts: "ts \<in> set ?names" "ts \<noteq> []"
    by (simp_all add: find_timestamp_column_label)
  from ts(1) obtain i where i: "column_index ?names ts = Some i" "i < length ?names"
    using column_index_member by blast
  have "process_selected_file fetch strptime (Some url) st =
             ((column_options (columns df) ts, column_options (columns df) ts, ''Loaded file: '' @ url),
              st\<lparr>timestamp_column := Some ts,
                 heap := heap st @ [sort_values i (drop_duplicates i (set_datetime_column strptime i df))],
                 uploaded_df := Some (length (heap st))\<rparr>)"
    using assms ts(2) i(1) by (simp add: process_selected_file_def Let_def cols alloc_def)
  with i show ?thesis by (auto simp: cols)
qed

text \<open>
  Claim C3, as the code has it. Once the table has been read, the timestamp column is the
  first column of the schema, in schema order, whose name is one of the two candidate labels;
  the callback stores exactly that choice. When no column carries a candidate label the
  callback returns the status \<^verbatim>\<open>No valid timestamp column found in the file.\<close>, and when one
  does the file is loaded.
\<close>

theorem timestamp_column_first_in_schema_order:
  assumes "fetch url = Inr text" and "url \<noteq> []"
    and "locate_data_section (splitlines text) = Some data_section"
    and "splitlines data_section = sample_row # rest"
    and "column_names = reconcile (extract_column_names (splitlines text)) sample_row"
    and "read_csv data_section column_names = Inr df"
  shows "timestamp_column (snd (process_selected_file fetch strptime (Some url) st))
           = find_timestamp_column column_names
    \<and> ((find_timestamp_column column_names = None)
         = (\<forall>col\<in>set column_names. col \<notin> set possible_timestamp_columns))
    \<and> (find_timestamp_column column_names = None \<longrightarrow>
         fst (process_selected_file fetch strptime (Some url) st)
           = ([], [], ''No valid timestamp column found in the file.''))
    \<and> (\<forall>ts. find_timestamp_column column_names = Some ts \<longrightarrow>
          (\<exists>i<length column_names. column_names ! i = ts \<and> ts \<in> set possible_timestamp_columns
             \<and> (\<forall>j<i. column_names ! j \<notin> set possible_timestamp_columns))
          \<and> snd (snd (fst (process_selected_file fetch strptime (Some url) st)))
              = ''Loaded file: '' @ url)"
proof -
  note rd = assms(6)[unfolded assms(5)]
  have a: "timestamp_column (snd (process_selected_file fetch strptime (Some url) st))
           = find_timestamp_column column_names"
  proof (cases "find_timestamp_column column_names")
    case None
    with process_unresolved[where fetch = fetch and url = url and strptime = strptime and st = st, OF assms(1-4) rd] show ?thesis
      by (simp add: assms(5))
  next
    case (Some ts)
    with process_resolved[where fetch = fetch and url = url and strptime = strptime and st = st and ts = ts, OF assms(1-4) rd] show ?thesis
      by (auto simp: assms(5))
  qed
  have b: "(find_timestamp_column column_names = None)
         = (\<forall>col\<in>set column_names. col \<notin> set possible_timestamp_columns)"
    by (auto simp: find_timestamp_column_def find_None_iff)
  have c: "find_timestamp_column column_names = None \<longrightarrow>
         fst (process_selected_file fetch strptime (Some url) st)
           = ([], [], ''No valid timestamp column found in the file.'')"
    using process_unresolved[where fetch = fetch and url = url and strptime = strptime and st = st, OF assms(1-4) rd] by (simp add: assms(5))
  have d: "\<forall>ts. find_timestamp_column column_names = Some ts \<longrightarrow>
          (\<exists>i<length column_names. column_names ! i = ts \<and> ts \<in> set possible_timestamp_columns
             \<and> (\<forall>j<i. column_names ! j \<notin> set possible_timestamp_columns))
          \<and> snd (snd (fst (process_selected_file fetch strptime (Some url) st)))
              = ''Loaded file: '' @ url"
  proof (intro allI impI conjI)
    fix ts assume f: "find_timestamp_column column_names = Some ts"
    then show "\<exists>i<length column_names. column_names ! i = ts \<and> ts \<in> set possible_timestamp_columns
             \<and> (\<forall>j<i. column_names ! j \<notin> set possible_timestamp_columns)"
      by (auto simp: find_timestamp_column_def find_Some_iff)
    from f process_resolved[where fetch = fetch and url = url and strptime = strptime and st = st and ts = ts, OF assms(1-4) rd]
    show "snd (snd (fst (process_selected_file fetch strptime (Some url) st))) = ''Loaded file: '' @ url"
      by (auto simp: assms(5))
  qed
  from a b c d show ?thesis by blast
qed

text \<open>
  The order of the allow-list does not decide: with the long label declared before
  \<^verbatim>\<open>Timestamp\<close> the long label is chosen, although \<^verbatim>\<open>Timestamp\<close> comes first in the
  allow-list.
\<close>

theorem timestamp_column_allow_list_order_counterexample:
  "timestamp_column (snd (process_selected_file
       (serve ''Column 1: UT date and time for measurement center\<newline>Column 2: Timestamp\<newline>20230101T000000.000000Z 20230101T000000.000000Z'')
       fixed_width_strptime (Some ''https://data.example/f.txt'') loaded_session))
     = Some ''UT date and time for measurement center''
   \<and> first_allowed_label [''UT date and time for measurement center'', ''Timestamp'']
       = Some ''Timestamp''
   \<and> find_timestamp_column [''UT date and time for measurement center'', ''Timestamp'']
       \<noteq> first_allowed_label [''UT date and time for measurement center'', ''Timestamp'']"
  by code_simp

theorem timestamp_column_first_in_schema_order_witness:
  "serve ''Column 1: Pressure\<newline>Column 2: Timestamp\<newline>20230101T000000.000000Z 1013.2'' ''https://data.example/f.txt''
      = Inr ''Column 1: Pressure\<newline>Column 2: Timestamp\<newline>20230101T000000.000000Z 1013.2''
   \<and> ''https://data.example/f.txt'' \<noteq> []
   \<and> locate_data_section (splitlines ''Column 1: Pressure\<newline>Column 2: Timestamp\<newline>20230101T000000.000000Z 1013.2'')
       = Some ''20230101T000000.000000Z 1013.2''
   \<and> splitlines ''20230101T000000.000000Z 1013.2'' = [''20230101T000000.000000Z 1013.2'']
   \<and> [''Pressure'', ''Timestamp'']
       = reconcile (extract_column_names (splitlines ''Column 1: Pressure\<newline>Column 2: Timestamp\<newline>20230101T000000.000000Z 1013.2''))
           ''20230101T000000.000000Z 1013.2''
   \<and> read_csv ''20230101T000000.000000Z 1013.2'' [''Pressure'', ''Timestamp'']
       = Inr \<lparr>columns = [''Pressure'', ''Timestamp''],
              rows = [[Raw ''20230101T000000.000000Z'', Raw ''1013.2'']]\<rparr>
   \<and> timestamp_column (snd (process_selected_file
         (serve ''Column 1: Pressure\<newline>Column 2: Timestamp\<newline>20230101T000000.000000Z 1013.2'')
         fixed_width_strptime (Some ''https://data.example/f.txt'') loaded_session))
       = find_timestamp_column [''Pressure'', ''Timestamp'']
   \<and> find_timestamp_column [''Pressure'', ''Timestamp''] = Some ''Timestamp''"
proof -
  have h1: "serve ''Column 1: Pressure\<newline>Column 2: Timestamp\<newline>20230101T000000.000000Z 1013.2'' ''https://data.example/f.txt''
      = Inr ''Column 1: Pressure\<newline>Column 2: Timestamp\<newline>20230101T000000.000000Z 1013.2''"
    by (simp add: serve_def)
  have h2: "''https://data.example/f.txt'' \<noteq> []" by simp
  have h3: "locate_data_section (splitlines ''Column 1: Pressure\<newline>Column 2: Timestamp\<newline>20230101T000000.000000Z 1013.2'')
       = Some ''20230101T000000.000000Z 1013.2''"
    by code_simp
  have h4: "splitlines ''20230101T000000.000000Z 1013.2'' = [''20230101T000000.000000Z 1013.2'']"
    by code_simp
  have h5: "[''Pressure'', ''Timestamp'']
       = reconcile (extract_column_names (splitlines ''Column 1: Pressure\<newline>Column 2: Timestamp\<newline>20230101T000000.000000Z 1013.2''))
           ''20230101T000000.000000Z 1013.2''"
    by code_simp
  have h6: "read_csv ''20230101T000000.000000Z 1013.2'' [''Pressure'', ''Timestamp'']
       = Inr \<lparr>columns = [''Pressure'', ''Timestamp''],
              rows = [[Raw ''20230101T000000.000000Z'', Raw ''1013.2'']]\<rparr>"
    by code_simp
  have f: "find_timestamp_column [''Pressure'', ''Timestamp''] = Some ''Timestamp''"
    by code_simp
  note t = timestamp_column_first_in_schema_order
    [where fetch = "serve ''Column 1: Pressure\<newline>Column 2: Timestamp\<newline>20230101T000000.000000Z 1013.2''"
       and strptime = fixed_width_strptime and st = loaded_session,
     OF h1 h2 h3 h4 h5 h6, THEN conjunct1]
  from h1 h2 h3 h4 h5 h6 t f show ?thesis by blast
qed

section \<open>Properties of the chart update\<close>

lemma session_table_alloc:
  "session_table st = Some df \<Longrightarrow> session_table (snd (alloc new st)) = Some df"
  by (auto simp: session_table_def deref_def alloc_def nth_append split: option.splits if_splits)

lemma alloc_frame:
  "uploaded_df (snd (alloc new st)) = uploaded_df st"
  "timestamp_column (snd (alloc new st)) = timestamp_column st"
  "heap (snd (alloc new st)) = heap st @ [new]"
  by (simp_all add: alloc_def)

lemma update_charts_state:
  "snd (update_charts to_datetime column1 column2 start_date end_date st) = st
   \<or> (\<exists>df. session_table st = Some df \<and>
         (snd (update_charts to_datetime column1 column2 start_date end_date st) = snd (alloc df st)
          \<or> (\<exists>new. snd (update_charts to_datetime column1 column2 start_date end_date st)
               = snd (alloc new (snd (alloc df st))))))"
proof (cases "session_table st")
  case None
  then show ?thesis by (simp add: update_charts_def)
next
  case (Some df)
  show ?thesis
  proof (cases "empty_df df \<or> \<not> truthy (timestamp_column st)")
    case True
    with Some show ?thesis by (auto simp: update_charts_def)
  next
    case False
    then obtain ts where ts: "timestamp_column st = Some ts"
      by (auto simp: truthy_def split: option.splits)
    show ?thesis
    proof (cases "date_filter to_datetime ts start_date end_date df")
      case (Inl err)
      with Some False ts show ?thesis
        by (simp add: update_charts_def Let_def split: prod.splits)
    next
      case (Inr selected)
      show ?thesis
      proof (cases selected)
        case None
        with Inr Some False ts show ?thesis
          by (simp add: update_charts_def Let_def split: prod.splits)
      next
        case (Some chosen)
        with Inr \<open>session_table st = Some df\<close> False ts
        have "snd (update_charts to_datetime column1 column2 start_date end_date st)
               = snd (alloc chosen (snd (alloc df st)))"
          by (simp add: update_charts_def Let_def split: prod.splits)
        with \<open>session_table st = Some df\<close> show ?thesis by blast
      qed
    qed
  qed
qed

text \<open>
  Claim C10. A chart update leaves the session as it was: both globals keep their values,
  the table \<^verbatim>\<open>uploaded_df\<close> refers to is the same, and every table that existed before is
  unchanged; the copy and the selection are new objects. This holds for every column
  selection and date range, also when the callback raises.
\<close>

theorem update_charts_preserves_session:
  "uploaded_df (snd (update_charts to_datetime column1 column2 start_date end_date st)) = uploaded_df st
   \<and> timestamp_column (snd (update_charts to_datetime column1 column2 start_date end_date st))
       = timestamp_column st
   \<and> session_table (snd (update_charts to_datetime column1 column2 start_date end_date st))
       = session_table st
   \<and> take (length (heap st)) (heap (snd (update_charts to_datetime column1 column2 start_date end_date st)))
       = heap st"
proof -
  let ?st' = "snd (update_charts to_datetime column1 column2 start_date end_date st)"
  from update_charts_state[of to_datetime column1 column2 start_date end_date st]
  consider "?st' = st"
    | df where "session_table st = Some df" "?st' = snd (alloc df st)"
    | df new where "session_table st = Some df" "?st' = snd (alloc new (snd (alloc df st)))"
    by blast
  then show ?thesis
  proof cases
    case 1
    then show ?thesis by simp
  next
    case 2
    then show ?thesis by (simp add: alloc_frame session_table_alloc)
  next
    case 3
    then show ?thesis by (simp add: alloc_frame session_table_alloc)
  qed
qed

theorem update_charts_preserves_session_witness:
  "uploaded_df (snd (update_charts iso_date (Some ''Pressure'') None (Some ''2023-01-02'')
       (Some ''2023-01-03'') loaded_session)) = uploaded_df loaded_session
   \<and> timestamp_column (snd (update_charts iso_date (Some ''Pressure'') None (Some ''2023-01-02'')
       (Some ''2023-01-03'') loaded_session)) = timestamp_column loaded_session
   \<and> session_table (snd (update_charts iso_date (Some ''Pressure'') None (Some ''2023-01-02'')
       (Some ''2023-01-03'') loaded_session)) = session_table loaded_session
   \<and> take (length (heap loaded_session)) (heap (snd (update_charts iso_date (Some ''Pressure'') None
       (Some ''2023-01-02'') (Some ''2023-01-03'') loaded_session))) = heap loaded_session
   \<and> length (heap (snd (update_charts iso_date (Some ''Pressure'') None (Some ''2023-01-02'')
       (Some ''2023-01-03'') loaded_session))) = 3"
proof -
  have grown: "length (heap (snd (update_charts iso_date (Some ''Pressure'') None (Some ''2023-01-02'')
       (Some ''2023-01-03'') loaded_session))) = 3"
    by code_simp
  from update_charts_preserves_session
    [of iso_date "Some ''Pressure''" None "Some ''2023-01-02''" "Some ''2023-01-03''" loaded_session]
    grown
  show ?thesis by blast
qed

lemma in_range_iff:
  "in_range lo hi c = (\<exists>t l h. c = Stamp t \<and> lo = Some l \<and> hi = Some h \<and> l \<le> t \<and> t \<le> h)"
  by (auto simp: in_range_def split: cell.splits option.splits)

text \<open>
  Claim C6, as the code has it. With a table loaded, when both dates are given the charts are
  drawn from the rows whose timestamp lies between the two bounds, both included (a null
  timestamp or a null bound selects nothing); when either date is absent the block is not
  entered and the charts are drawn from all rows.
\<close>

theorem update_charts_filters_with_both_bounds:
  assumes "session_table st = Some df" and "\<not> empty_df df"
    and "timestamp_column st = Some ts" and "ts \<noteq> []"
    and "column_index (columns df) ts = Some i"
  shows "(\<forall>s e lo hi. start_date = Some s \<and> s \<noteq> [] \<and> end_date = Some e \<and> e \<noteq> []
            \<and> to_datetime s = Inr lo \<and> to_datetime e = Inr hi \<longrightarrow>
            fst (update_charts to_datetime column1 column2 start_date end_date st)
              = draw_charts (df\<lparr>rows := filter (\<lambda>row. in_range lo hi (cell_at i row)) (rows df)\<rparr>)
                  ts column1 column2)
       \<and> (\<not> (truthy start_date \<and> truthy end_date) \<longrightarrow>
            fst (update_charts to_datetime column1 column2 start_date end_date st)
              = draw_charts df ts column1 column2)
       \<and> (\<forall>lo hi c. in_range lo hi c
            = (\<exists>t l h. c = Stamp t \<and> lo = Some l \<and> hi = Some h \<and> l \<le> t \<and> t \<le> h))"
proof (intro conjI allI impI)
  fix s e lo hi
  assume b: "start_date = Some s \<and> s \<noteq> [] \<and> end_date = Some e \<and> e \<noteq> []
            \<and> to_datetime s = Inr lo \<and> to_datetime e = Inr hi"
  then have "date_filter to_datetime ts start_date end_date df
      = Inr (Some (df\<lparr>rows := filter (\<lambda>row. in_range lo hi (cell_at i row)) (rows df)\<rparr>))"
    using assms(5) by (simp add: date_filter_def truthy_def)
  then show "fst (update_charts to_datetime column1 column2 start_date end_date st)
              = draw_charts (df\<lparr>rows := filter (\<lambda>row. in_range lo hi (cell_at i row)) (rows df)\<rparr>)
                  ts column1 column2"
    using assms(1-4) by (simp add: update_charts_def truthy_def Let_def split: prod.splits)
next
  assume "\<not> (truthy start_date \<and> truthy end_date)"
  then have "date_filter to_datetime ts start_date end_date df = Inr None"
    by (auto simp: date_filter_def)
  then show "fst (update_charts to_datetime column1 column2 start_date end_date st)
              = draw_charts df ts column1 column2"
    using assms(1-4) by (simp add: update_charts_def truthy_def Let_def split: prod.splits)
next
  fix lo hi c
  show "in_range lo hi c
            = (\<exists>t l h. c = Stamp t \<and> lo = Some l \<and> hi = Some h \<and> l \<le> t \<and> t \<le> h)"
    by (rule in_range_iff)
qed

theorem update_charts_filters_with_both_bounds_witness:
  "session_table loaded_session
     = Some \<lparr>columns = [''Timestamp'', ''Pressure''],
             rows = [[Stamp 20230101000000000000, Raw ''1013.2''],
                     [Stamp 20230103000000000000, Raw ''1012.5'']]\<rparr>
   \<and> \<not> empty_df \<lparr>columns = [''Timestamp'', ''Pressure''],
             rows = [[Stamp 20230101000000000000, Raw ''1013.2''],
                     [Stamp 20230103000000000000, Raw ''1012.5'']]\<rparr>
   \<and> timestamp_column loaded_session = Some ''Timestamp''
   \<and> ''Timestamp'' \<noteq> []
   \<and> column_index [''Timestamp'', ''Pressure''] ''Timestamp'' = Some 0
   \<and> iso_date ''2023-01-02'' = Inr (Some 20230102000000000000)
   \<and> iso_date ''2023-01-03'' = Inr (Some 20230103000000000000)
   \<and> fst (update_charts iso_date (Some ''Pressure'') None (Some ''2023-01-02'') (Some ''2023-01-03'')
        loaded_session)
       = Inr (\<lparr>points = [(Stamp 20230103000000000000, Raw ''1012.5'')],
               title = ''Chart 1: Pressure Over Time''\<rparr>, no_data_figure)
   \<and> fst (update_charts iso_date (Some ''Pressure'') None None (Some ''2023-01-02'') loaded_session)
       = Inr (\<lparr>points = [(Stamp 20230101000000000000, Raw ''1013.2''),
                         (Stamp 20230103000000000000, Raw ''1012.5'')],
               title = ''Chart 1: Pressure Over Time''\<rparr>, no_data_figure)"
proof -
  let ?df = "\<lparr>columns = [''Timestamp'', ''Pressure''],
             rows = [[Stamp 20230101000000000000, Raw ''1013.2''],
                     [Stamp 20230103000000000000, Raw ''1012.5'']]\<rparr>"
  have h1: "session_table loaded_session = Some ?df" by code_simp
  have h2: "\<not> empty_df ?df" by code_simp
  have h3: "timestamp_column loaded_session = Some ''Timestamp''" by code_simp
  have h4: "''Timestamp'' \<noteq> []" by simp
  have h5: "column_index (columns ?df) ''Timestamp'' = Some 0" by simp
  have lo: "iso_date ''2023-01-02'' = Inr (Some 20230102000000000000)" by code_simp
  have hi: "iso_date ''2023-01-03'' = Inr (Some 20230103000000000000)" by code_simp
  note t = update_charts_filters_with_both_bounds[OF h1 h2 h3 h4 h5,
      where to_datetime = iso_date and ?column1.0 = "Some ''Pressure''" and ?column2.0 = None]
  from t[where start_date = "Some ''2023-01-02''" and end_date = "Some ''2023-01-03''",
      THEN conjunct1, rule_format,
      of "''2023-01-02''" "''2023-01-03''" "Some 20230102000000000000" "Some 20230103000000000000"]
    lo hi
  have both: "fst (update_charts iso_date (Some ''Pressure'') None (Some ''2023-01-02'')
        (Some ''2023-01-03'') loaded_session)
      = draw_charts (?df\<lparr>rows := filter (\<lambda>row. in_range (Some 20230102000000000000)
            (Some 20230103000000000000) (cell_at 0 row)) (rows ?df)\<rparr>) ''Timestamp''
          (Some ''Pressure'') None"
    by simp
  have drawn: "draw_charts (?df\<lparr>rows := filter (\<lambda>row. in_range (Some 20230102000000000000)
            (Some 20230103000000000000) (cell_at 0 row)) (rows ?df)\<rparr>) ''Timestamp''
          (Some ''Pressure'') None
      = Inr (\<lparr>points = [(Stamp 20230103000000000000, Raw ''1012.5'')],
               title = ''Chart 1: Pressure Over Time''\<rparr>, no_data_figure)"
    by code_simp
  from t[where start_date = None and end_date = "Some ''2023-01-02''", THEN conjunct2, THEN conjunct1]
  have one: "fst (update_charts iso_date (Some ''Pressure'') None None (Some ''2023-01-02'')
        loaded_session) = draw_charts ?df ''Timestamp'' (Some ''Pressure'') None"
    by (simp add: truthy_def)
  have drawn1: "draw_charts ?df ''Timestamp'' (Some ''Pressure'') None
      = Inr (\<lparr>points = [(Stamp 20230101000000000000, Raw ''1013.2''),
                         (Stamp 20230103000000000000, Raw ''1012.5'')],
               title = ''Chart 1: Pressure Over Time''\<rparr>, no_data_figure)"
    by code_simp
  from h1 h2 h3 h4 h5 lo hi both[unfolded drawn] one[unfolded drawn1]
  show ?thesis by simp
qed

text \<open>
  A start date alone does not filter: the row of 1 January is drawn although the start date is
  2 January.
\<close>

theorem one_sided_range_counterexample:
  "fst (update_charts iso_date (Some ''Pressure'') None (Some ''2023-01-02'') None loaded_session)
     = Inr (\<lparr>points = [(Stamp 20230101000000000000, Raw ''1013.2''),
                       (Stamp 20230103000000000000, Raw ''1012.5'')],
             title = ''Chart 1: Pressure Over Time''\<rparr>,
            no_data_figure)
   \<and> iso_date ''2023-01-02'' = Inr (Some 20230102000000000000)
   \<and> \<not> within_bounds (Some 20230102000000000000) None 20230101000000000000"
  by code_simp

section \<open>Properties of the resolved table\<close>

lemma keep_first_positions:
  "keep_first key seen rs =
     map (nth rs)
       (filter (\<lambda>k. key (rs ! k) \<notin> set seen \<and> (\<forall>j<k. key (rs ! j) \<noteq> key (rs ! k)))
          [0..<length rs])"
proof (induction rs arbitrary: seen)
  case Nil
  show ?case by simp
next
  case (Cons r rs)
  have upt: "[0..<length (r # rs)] = 0 # map Suc [0..<length rs]"
    by (simp add: upt_conv_Cons map_Suc_upt del: upt_Suc)
  show ?case
  proof (cases "key r \<in> set seen")
    case True
    have "filter (\<lambda>k. key (rs ! k) \<notin> set seen \<and> key r \<noteq> key (rs ! k)
                \<and> (\<forall>j<k. key (rs ! j) \<noteq> key (rs ! k))) [0..<length rs]
        = filter (\<lambda>k. key (rs ! k) \<notin> set seen \<and> (\<forall>j<k. key (rs ! j) \<noteq> key (rs ! k)))
            [0..<length rs]"
      using True by (intro filter_cong) auto
    with True show ?thesis
      unfolding upt by (simp add: filter_map o_def All_less_Suc2 Cons.IH)
  next
    case False
    have "filter (\<lambda>k. key (rs ! k) \<notin> set seen \<and> key r \<noteq> key (rs ! k)
                \<and> (\<forall>j<k. key (rs ! j) \<noteq> key (rs ! k))) [0..<length rs]
        = filter (\<lambda>k. key (rs ! k) \<notin> set (key r # seen) \<and> (\<forall>j<k. key (rs ! j) \<noteq> key (rs ! k)))
            [0..<length rs]"
      by (intro filter_cong) auto
    with False show ?thesis
      unfolding upt by (simp add: filter_map o_def All_less_Suc2 Cons.IH)
  qed
qed

lemma keep_first_first_occurrences: "keep_first key [] rs = first_occurrences key rs"
  by (simp add: keep_first_positions first_occurrences_def)

lemma keep_first_fresh:
  "r \<in> set (keep_first key seen rs) \<Longrightarrow> key r \<notin> set seen"
proof (induction rs arbitrary: seen)
  case Nil
  then show ?case by simp
next
  case (Cons a rs)
  show ?case
  proof (cases "key a \<in> set seen")
    case True
    with Cons.prems have "r \<in> set (keep_first key seen rs)" by simp
    then show ?thesis by (rule Cons.IH)
  next
    case False
    with Cons.prems have "r = a \<or> r \<in> set (keep_first key (key a # seen) rs)" by simp
    then show ?thesis
    proof
      assume "r = a"
      with False show ?thesis by simp
    next
      assume "r \<in> set (keep_first key (key a # seen) rs)"
      from Cons.IH[OF this] show ?thesis by simp
    qed
  qed
qed

lemma keep_first_keys: "distinct (map key (keep_first key seen rs))"
proof (induction rs arbitrary: seen)
  case Nil
  show ?case by simp
next
  case (Cons r rs)
  have "key r \<notin> key ` set (keep_first key (key r # seen) rs)"
  proof
    assume "key r \<in> key ` set (keep_first key (key r # seen) rs)"
    then obtain x where x: "x \<in> set (keep_first key (key r # seen) rs)" "key x = key r"
      by auto
    from keep_first_fresh[OF x(1)] x(2) show False by simp
  qed
  with Cons.IH show ?case by simp
qed

lemma distinct_keys_sort:
  assumes "distinct (map key xs)"
  shows "distinct (map key (sort_key f xs))"
  using assms by (simp add: distinct_map)

lemma normalized_rows:
  "rows (sort_values i (drop_duplicates i df))
     = sort_key (\<lambda>row. sort_rank (cell_at i row)) (first_occurrences (cell_at i) (rows df))"
  by (simp add: sort_values_def drop_duplicates_def keep_first_first_occurrences)

lemma normalized_distinct:
  "distinct (map (cell_at i) (rows (sort_values i (drop_duplicates i df))))"
  using keep_first_keys[of "cell_at i" "[]" "rows df"]
  by (simp add: sort_values_def drop_duplicates_def distinct_keys_sort)

lemma normalized_sorted:
  "sorted (map (\<lambda>row. sort_rank (cell_at i row)) (rows (sort_values i (drop_duplicates i df))))"
  by (simp add: sort_values_def)

lemma normalized_increasing:
  assumes "a < b" and "b < length (rows (sort_values i (drop_duplicates i df)))"
    and "cell_at i (rows (sort_values i (drop_duplicates i df)) ! a) = Stamp s"
    and "cell_at i (rows (sort_values i (drop_duplicates i df)) ! b) = Stamp t"
  shows "s < t"
proof -
  let ?out = "rows (sort_values i (drop_duplicates i df))"
  let ?ranks = "map (\<lambda>row. sort_rank (cell_at i row)) ?out"
  have "?ranks ! a \<le> ?ranks ! b"
    using normalized_sorted[of i df] assms(1,2) by (intro sorted_nth_mono) simp_all
  with assms have le: "s \<le> t" by (simp add: sort_rank_def)
  have "(map (cell_at i) ?out ! a = map (cell_at i) ?out ! b) = (a = b)"
    using assms(1,2) by (intro nth_eq_iff_index_eq normalized_distinct) simp_all
  with assms have "s \<noteq> t" by auto
  with le show ?thesis by simp
qed

lemma read_csv_row_length:
  "read_csv text names = Inr df \<Longrightarrow> row \<in> set (rows df) \<Longrightarrow> length row = length names"
  by (auto simp: read_csv_def csv_row_def split: if_splits)

lemma to_datetime_cell_kind:
  "to_datetime_cell strptime c = NaT \<or> (\<exists>t. to_datetime_cell strptime c = Stamp t)"
  by (auto simp: to_datetime_cell_def split: cell.splits option.splits)

lemma set_datetime_column_kind:
  assumes "\<forall>row\<in>set (rows df). i < length row"
    and "row \<in> set (rows (set_datetime_column strptime i df))"
  shows "cell_at i row = NaT \<or> (\<exists>t. cell_at i row = Stamp t)"
proof -
  from assms(2) obtain old where old: "old \<in> set (rows df)"
    and row: "row = old[i := to_datetime_cell strptime (cell_at i old)]"
    by (auto simp: set_datetime_column_def)
  from old assms(1) have "i < length old" by simp
  with row have "cell_at i row = to_datetime_cell strptime (cell_at i old)"
    by (simp add: cell_at_def)
  with to_datetime_cell_kind[of strptime "cell_at i old"] show ?thesis by simp
qed

lemma process_loaded_inversion:
  assumes "process_selected_file fetch strptime (Some url) st = ((o1, o2, ''Loaded file: '' @ url), st')"
  shows "\<exists>body data_section sample_row rest df ts.
           fetch url = Inr body \<and> url \<noteq> []
         \<and> locate_data_section (splitlines body) = Some data_section
         \<and> splitlines data_section = sample_row # rest
         \<and> read_csv data_section (reconcile (extract_column_names (splitlines body)) sample_row) = Inr df
         \<and> find_timestamp_column (reconcile (extract_column_names (splitlines body)) sample_row) = Some ts"
  using assms
  by (auto simp: process_selected_file_def Let_def error_loading_def
      split: if_splits sum.splits option.splits list.splits prod.splits)

lemma process_loaded_table:
  assumes "process_selected_file fetch strptime (Some url) st = ((o1, o2, ''Loaded file: '' @ url), st')"
  shows "\<exists>body data_section sample_row rest tbl ts i.
           fetch url = Inr body
         \<and> locate_data_section (splitlines body) = Some data_section
         \<and> splitlines data_section = sample_row # rest
         \<and> read_csv data_section (reconcile (extract_column_names (splitlines body)) sample_row)
             = Inr tbl
         \<and> find_timestamp_column (reconcile (extract_column_names (splitlines body)) sample_row)
             = Some ts
         \<and> column_index (columns tbl) ts = Some i
         \<and> timestamp_column st' = Some ts
         \<and> session_table st'
             = Some (sort_values i (drop_duplicates i (set_datetime_column strptime i tbl)))
         \<and> (\<forall>stored. session_table st' = Some stored \<longrightarrow>
               columns stored = columns tbl
             \<and> rows stored
                 = sort_key (\<lambda>row. sort_rank (cell_at i row))
                     (first_occurrences (cell_at i)
                        (map (\<lambda>row. row[i := to_datetime_cell strptime (cell_at i row)]) (rows tbl)))
             \<and> distinct (map (cell_at i) (rows stored))
             \<and> sorted (map (\<lambda>row. sort_rank (cell_at i row)) (rows stored))
             \<and> (\<forall>row\<in>set (rows stored). cell_at i row = NaT \<or> (\<exists>t. cell_at i row = Stamp t)))"
proof -
  from process_loaded_inversion[OF assms]
  obtain body data_section sample_row rest tbl ts where h:
    "fetch url = Inr body" "url \<noteq> []"
    "locate_data_section (splitlines body) = Some data_section"
    "splitlines data_section = sample_row # rest"
    "read_csv data_section (reconcile (extract_column_names (splitlines body)) sample_row) = Inr tbl"
    "find_timestamp_column (reconcile (extract_column_names (splitlines body)) sample_row) = Some ts"
    by blast
  from process_resolved[where fetch = fetch and url = url and strptime = strptime and st = st,
      OF h]
  obtain i where i: "column_index (columns tbl) ts = Some i" "i < length (columns tbl)"
    and run: "process_selected_file fetch strptime (Some url) st =
             ((column_options (columns tbl) ts, column_options (columns tbl) ts, ''Loaded file: '' @ url),
              st\<lparr>timestamp_column := Some ts,
                 heap := heap st @ [sort_values i (drop_duplicates i (set_datetime_column strptime i tbl))],
                 uploaded_df := Some (length (heap st))\<rparr>)"
    by blast
  let ?df1 = "set_datetime_column strptime i tbl"
  let ?out = "sort_values i (drop_duplicates i ?df1)"
  from run assms have st': "st' = st\<lparr>timestamp_column := Some ts,
                 heap := heap st @ [?out],
                 uploaded_df := Some (length (heap st))\<rparr>"
    by simp
  have stored: "session_table st' = Some ?out"
    by (simp add: st' session_table_def deref_def)
  have ts': "timestamp_column st' = Some ts" by (simp add: st')
  have cols: "columns ?out = columns tbl"
    by (simp add: sort_values_def drop_duplicates_def set_datetime_column_def)
  have rws: "rows ?out
      = sort_key (\<lambda>row. sort_rank (cell_at i row))
          (first_occurrences (cell_at i)
             (map (\<lambda>row. row[i := to_datetime_cell strptime (cell_at i row)]) (rows tbl)))"
    by (simp add: normalized_rows set_datetime_column_def)
  have len: "\<forall>row\<in>set (rows tbl). i < length row"
    using read_csv_row_length[OF h(5)] read_csv_columns[OF h(5)] i(2) by simp
  have kind1: "\<forall>row\<in>set (rows ?df1). cell_at i row = NaT \<or> (\<exists>t. cell_at i row = Stamp t)"
    using set_datetime_column_kind[OF len] by blast
  have sub: "set (rows ?out) \<subseteq> set (rows ?df1)"
    by (auto simp: sort_values_def drop_duplicates_def keep_first_positions)
  from kind1 sub
  have kind: "\<forall>row\<in>set (rows ?out). cell_at i row = NaT \<or> (\<exists>t. cell_at i row = Stamp t)"
    by blast
  have props: "\<forall>stored. session_table st' = Some stored \<longrightarrow>
               columns stored = columns tbl
             \<and> rows stored
                 = sort_key (\<lambda>row. sort_rank (cell_at i row))
                     (first_occurrences (cell_at i)
                        (map (\<lambda>row. row[i := to_datetime_cell strptime (cell_at i row)]) (rows tbl)))
             \<and> distinct (map (cell_at i) (rows stored))
             \<and> sorted (map (\<lambda>row. sort_rank (cell_at i row)) (rows stored))
             \<and> (\<forall>row\<in>set (rows stored). cell_at i row = NaT \<or> (\<exists>t. cell_at i row = Stamp t))"
    using stored cols rws kind normalized_distinct[of i ?df1] normalized_sorted[of i ?df1]
    by simp
  from h(1,3,4,5,6) i(1) ts' stored props show ?thesis by blast
qed

lemma scenario_resolves:
  assumes "strptime ''20230101T000000.000000Z'' = Some t1"
    and "strptime ''20230102T000000.000000Z'' = Some t2" and "t1 < t2"
  shows "session_table (snd (process_selected_file (serve scenario_file) strptime
            (Some ''https://data.example/f.txt'') st))
         = Some \<lparr>columns = [''Timestamp'', ''Pressure''],
                 rows = [[Stamp t1, Raw ''1013.2''], [Stamp t2, Raw ''1012.5'']]\<rparr>"
proof -
  let ?section = "''20230101T000000.000000Z 1013.2\<newline>20230101T000000.000000Z 1014.0\<newline>20230102T000000.000000Z 1012.5''"
  let ?df = "\<lparr>columns = [''Timestamp'', ''Pressure''],
              rows = [[Raw ''20230101T000000.000000Z'', Raw ''1013.2''],
                      [Raw ''20230101T000000.000000Z'', Raw ''1014.0''],
                      [Raw ''20230102T000000.000000Z'', Raw ''1012.5'']]\<rparr>"
  have h1: "serve scenario_file ''https://data.example/f.txt'' = Inr scenario_file"
    by (simp add: serve_def)
  have h2: "''https://data.example/f.txt'' \<noteq> []" by simp
  have h3: "locate_data_section (splitlines scenario_file) = Some ?section"
    by code_simp
  have h4: "splitlines ?section
      = ''20230101T000000.000000Z 1013.2''
        # [''20230101T000000.000000Z 1014.0'', ''20230102T000000.000000Z 1012.5'']"
    by code_simp
  have names: "reconcile (extract_column_names (splitlines scenario_file))
      ''20230101T000000.000000Z 1013.2'' = [''Timestamp'', ''Pressure'']"
    by code_simp
  have h5: "read_csv ?section (reconcile (extract_column_names (splitlines scenario_file))
      ''20230101T000000.000000Z 1013.2'') = Inr ?df"
    unfolding names by code_simp
  have h6: "find_timestamp_column (reconcile (extract_column_names (splitlines scenario_file))
      ''20230101T000000.000000Z 1013.2'') = Some ''Timestamp''"
    unfolding names by code_simp
  from process_resolved[where fetch = "serve scenario_file" and strptime = strptime and st = st,
      OF h1 h2 h3 h4 h5 h6]
  have run: "process_selected_file (serve scenario_file) strptime (Some ''https://data.example/f.txt'') st =
       ((column_options (columns ?df) ''Timestamp'', column_options (columns ?df) ''Timestamp'',
         ''Loaded file: '' @ ''https://data.example/f.txt''),
        st\<lparr>timestamp_column := Some ''Timestamp'',
           heap := heap st @ [sort_values 0 (drop_duplicates 0 (set_datetime_column strptime 0 ?df))],
           uploaded_df := Some (length (heap st))\<rparr>)"
    by auto
  have norm: "sort_values 0 (drop_duplicates 0 (set_datetime_column strptime 0 ?df))
      = \<lparr>columns = [''Timestamp'', ''Pressure''],
         rows = [[Stamp t1, Raw ''1013.2''], [Stamp t2, Raw ''1012.5'']]\<rparr>"
    using assms
    by (simp add: sort_values_def drop_duplicates_def set_datetime_column_def cell_at_def
        to_datetime_cell_def sort_rank_def)
  show ?thesis unfolding run norm by (simp add: session_table_def deref_def)
qed

text \<open>
  Claim C4. Whenever a file is loaded, the file has a data section, \<^verbatim>\<open>read_csv\<close> has read
  a table from it and a timestamp column has been found in its schema; the stored table has
  the columns of the table read, and its rows are the rows read, with the timestamp column
  converted, reduced to the first occurrence of each timestamp value in file order and then
  sorted; no two stored rows have the same timestamp cell, the rows are in ascending order with
  the null timestamp last, and every timestamp cell is a timestamp or null. For every table
  the two calls \<^verbatim>\<open>drop_duplicates\<close> and \<^verbatim>\<open>sort_values\<close> give the sorted first occurrences,
  pairwise different and ascending, and of two rows with timestamps the earlier row has the
  strictly smaller one. For the file of the scenario, with any parser that reads its two
  stamps in their order, the table has exactly the first and the third row.
\<close>

theorem resolved_table_unique_sorted_timestamps:
  "(\<forall>o1 o2 st'. process_selected_file fetch strptime (Some url) st
                    = ((o1, o2, ''Loaded file: '' @ url), st') \<longrightarrow>
      (\<exists>body data_section sample_row rest tbl ts i.
           fetch url = Inr body
         \<and> locate_data_section (splitlines body) = Some data_section
         \<and> splitlines data_section = sample_row # rest
         \<and> read_csv data_section (reconcile (extract_column_names (splitlines body)) sample_row)
             = Inr tbl
         \<and> find_timestamp_column (reconcile (extract_column_names (splitlines body)) sample_row)
             = Some ts
         \<and> column_index (columns tbl) ts = Some i
         \<and> timestamp_column st' = Some ts
         \<and> session_table st'
             = Some (sort_values i (drop_duplicates i (set_datetime_column strptime i tbl)))
         \<and> (\<forall>stored. session_table st' = Some stored \<longrightarrow>
               columns stored = columns tbl
             \<and> rows stored
                 = sort_key (\<lambda>row. sort_rank (cell_at i row))
                     (first_occurrences (cell_at i)
                        (map (\<lambda>row. row[i := to_datetime_cell strptime (cell_at i row)]) (rows tbl)))
             \<and> distinct (map (cell_at i) (rows stored))
             \<and> sorted (map (\<lambda>row. sort_rank (cell_at i row)) (rows stored))
             \<and> (\<forall>row\<in>set (rows stored). cell_at i row = NaT \<or> (\<exists>t. cell_at i row = Stamp t)))))
   \<and> rows (sort_values i (drop_duplicates i df))
       = sort_key (\<lambda>row. sort_rank (cell_at i row)) (first_occurrences (cell_at i) (rows df))
   \<and> distinct (map (cell_at i) (rows (sort_values i (drop_duplicates i df))))
   \<and> sorted (map (\<lambda>row. sort_rank (cell_at i row)) (rows (sort_values i (drop_duplicates i df))))
   \<and> (\<forall>a b s t. a < b \<and> b < length (rows (sort_values i (drop_duplicates i df)))
         \<and> cell_at i (rows (sort_values i (drop_duplicates i df)) ! a) = Stamp s
         \<and> cell_at i (rows (sort_values i (drop_duplicates i df)) ! b) = Stamp t \<longrightarrow> s < t)
   \<and> (strptime ''20230101T000000.000000Z'' = Some t1
        \<and> strptime ''20230102T000000.000000Z'' = Some t2 \<and> t1 < t2 \<longrightarrow>
        session_table (snd (process_selected_file (serve scenario_file) strptime
            (Some ''https://data.example/f.txt'') st))
         = Some \<lparr>columns = [''Timestamp'', ''Pressure''],
                 rows = [[Stamp t1, Raw ''1013.2''], [Stamp t2, Raw ''1012.5'']]\<rparr>)"
proof (intro conjI)
  show "\<forall>o1 o2 st'. process_selected_file fetch strptime (Some url) st
                    = ((o1, o2, ''Loaded file: '' @ url), st') \<longrightarrow>
      (\<exists>body data_section sample_row rest tbl ts i.
           fetch url = Inr body
         \<and> locate_data_section (splitlines body) = Some data_section
         \<and> splitlines data_section = sample_row # rest
         \<and> read_csv data_section (reconcile (extract_column_names (splitlines body)) sample_row)
             = Inr tbl
         \<and> find_timestamp_column (reconcile (extract_column_names (splitlines body)) sample_row)
             = Some ts
         \<and> column_index (columns tbl) ts = Some i
         \<and> timestamp_column st' = Some ts
         \<and> session_table st'
             = Some (sort_values i (drop_duplicates i (set_datetime_column strptime i tbl)))
         \<and> (\<forall>stored. session_table st' = Some stored \<longrightarrow>
               columns stored = columns tbl
             \<and> rows stored
                 = sort_key (\<lambda>row. sort_rank (cell_at i row))
                     (first_occurrences (cell_at i)
                        (map (\<lambda>row. row[i := to_datetime_cell strptime (cell_at i row)]) (rows tbl)))
             \<and> distinct (map (cell_at i) (rows stored))
             \<and> sorted (map (\<lambda>row. sort_rank (cell_at i row)) (rows stored))
             \<and> (\<forall>row\<in>set (rows stored). cell_at i row = NaT \<or> (\<exists>t. cell_at i row = Stamp t))))"
    using process_loaded_table by blast
  show "rows (sort_values i (drop_duplicates i df))
       = sort_key (\<lambda>row. sort_rank (cell_at i row)) (first_occurrences (cell_at i) (rows df))"
    by (rule normalized_rows)
  show "distinct (map (cell_at i) (rows (sort_values i (drop_duplicates i df))))"
    by (rule normalized_distinct)
  show "sorted (map (\<lambda>row. sort_rank (cell_at i row)) (rows (sort_values i (drop_duplicates i df))))"
    by (rule normalized_sorted)
  show "\<forall>a b s t. a < b \<and> b < length (rows (sort_values i (drop_duplicates i df)))
         \<and> cell_at i (rows (sort_values i (drop_duplicates i df)) ! a) = Stamp s
         \<and> cell_at i (rows (sort_values i (drop_duplicates i df)) ! b) = Stamp t \<longrightarrow> s < t"
    using normalized_increasing by blast
  show "strptime ''20230101T000000.000000Z'' = Some t1
        \<and> strptime ''20230102T000000.000000Z'' = Some t2 \<and> t1 < t2 \<longrightarrow>
        session_table (snd (process_selected_file (serve scenario_file) strptime
            (Some ''https://data.example/f.txt'') st))
         = Some \<lparr>columns = [''Timestamp'', ''Pressure''],
                 rows = [[Stamp t1, Raw ''1013.2''], [Stamp t2, Raw ''1012.5'']]\<rparr>"
    using scenario_resolves by blast
qed

theorem resolved_table_unique_sorted_timestamps_witness:
  "fixed_width_strptime ''20230101T000000.000000Z'' = Some 20230101000000000000
   \<and> fixed_width_strptime ''20230102T000000.000000Z'' = Some 20230102000000000000
   \<and> (20230101000000000000 :: int) < 20230102000000000000
   \<and> fst (process_selected_file (serve scenario_file) fixed_width_strptime
            (Some ''https://data.example/f.txt'') loaded_session)
       = ([(''Pressure'', ''Pressure'')], [(''Pressure'', ''Pressure'')],
          ''Loaded file: '' @ ''https://data.example/f.txt'')
   \<and> session_table (snd (process_selected_file (serve scenario_file) fixed_width_strptime
            (Some ''https://data.example/f.txt'') loaded_session))
       = Some \<lparr>columns = [''Timestamp'', ''Pressure''],
               rows = [[Stamp 20230101000000000000, Raw ''1013.2''],
                       [Stamp 20230102000000000000, Raw ''1012.5'']]\<rparr>"
proof -
  have p1: "fixed_width_strptime ''20230101T000000.000000Z'' = Some 20230101000000000000"
    by code_simp
  have p2: "fixed_width_strptime ''20230102T000000.000000Z'' = Some 20230102000000000000"
    by code_simp
  have lt: "(20230101000000000000 :: int) < 20230102000000000000" by simp
  have msg: "fst (process_selected_file (serve scenario_file) fixed_width_strptime
            (Some ''https://data.example/f.txt'') loaded_session)
       = ([(''Pressure'', ''Pressure'')], [(''Pressure'', ''Pressure'')],
          ''Loaded file: '' @ ''https://data.example/f.txt'')"
    by code_simp
  note t = resolved_table_unique_sorted_timestamps
    [where strptime = fixed_width_strptime and st = loaded_session
       and ?t1.0 = 20230101000000000000 and ?t2.0 = 20230102000000000000]
  from t p1 p2 lt
  have "session_table (snd (process_selected_file (serve scenario_file) fixed_width_strptime
            (Some ''https://data.example/f.txt'') loaded_session))
       = Some \<lparr>columns = [''Timestamp'', ''Pressure''],
               rows = [[Stamp 20230101000000000000, Raw ''1013.2''],
                       [Stamp 20230102000000000000, Raw ''1012.5'']]\<rparr>"
    by blast
  with p1 p2 lt msg show ?thesis by blast
qed

end
